theory Spec2Isabelle
  imports Main "HOL-Library.Word"
begin

section \<open>Python values the program handles\<close>

text \<open>
  The program is one Python file, \<^verbatim>\<open>testresults.py\<close>, with two functions:
  \<^verbatim>\<open>convert_l16_to_wav\<close> (raw PCM to a WAV container, through the standard
  library's \<^verbatim>\<open>wave\<close> writer on an in-memory file) and \<^verbatim>\<open>generate_speech\<close>
  (one HTTP call, navigation of the JSON answer, base64 decoding, conversion).

  Exceptions are values. The program tells two classes apart in its handlers:
  \<^verbatim>\<open>requests.exceptions.RequestException\<close> and every other \<^verbatim>\<open>Exception\<close>.
  The second class is kept split by the Python type that is raised, so the model reads
  like the interpreter's behaviour. Each constructor carries the text \<^verbatim>\<open>str(e)\<close>
  (for \<^verbatim>\<open>KeyError\<close> that is the \<^verbatim>\<open>repr\<close> of the key).
\<close>

datatype exn =
    RequestException string
  | KeyError string
  | IndexError string
  | TypeError string
  | AttributeError string
  | ValueError string
  | BinasciiError string
  | StructError string
  | WaveError string
  | EOFError

fun str_exn :: "exn \<Rightarrow> string" where
  "str_exn (RequestException m) = m"
| "str_exn (KeyError m) = m"
| "str_exn (IndexError m) = m"
| "str_exn (TypeError m) = m"
| "str_exn (AttributeError m) = m"
| "str_exn (ValueError m) = m"
| "str_exn (BinasciiError m) = m"
| "str_exn (StructError m) = m"
| "str_exn (WaveError m) = m"
| "str_exn EOFError = []"

fun is_request_exception :: "exn \<Rightarrow> bool" where
  "is_request_exception (RequestException m) = True"
| "is_request_exception e = False"

text \<open>A text between single quotes, as \<^verbatim>\<open>repr\<close> and many messages print a name.\<close>

definition quoted :: "string \<Rightarrow> string" where
  "quoted s = [CHR 0x27] @ s @ [CHR 0x27]"

type_synonym byte = "8 word"
type_synonym bytes = "byte list"

definition ascii :: "string \<Rightarrow> bytes" where
  "ascii s = map of_char s"

section \<open>The struct module: little-endian packing with range checks\<close>

text \<open>
  \<^verbatim>\<open>struct.pack('<...')\<close> with the format characters the wave writer uses:
  \<^verbatim>\<open>L\<close> (unsigned 32 bit), \<^verbatim>\<open>H\<close> (unsigned 16 bit) and \<^verbatim>\<open>4s\<close> (four bytes,
  cut or padded with zero bytes). A number outside its field's range raises
  \<^verbatim>\<open>struct.error\<close>; nothing wraps around.
\<close>

definition le16 :: "nat \<Rightarrow> bytes" where
  "le16 n = [word_of_nat n, word_of_nat (n div 256)]"

definition le32 :: "nat \<Rightarrow> bytes" where
  "le32 n = [word_of_nat n, word_of_nat (n div 256),
             word_of_nat (n div 65536), word_of_nat (n div 16777216)]"

fun unle :: "bytes \<Rightarrow> nat" where
  "unle [] = 0"
| "unle (b # bs) = unat b + 256 * unle bs"

datatype field = L nat | H nat | S4 bytes

fun pack_field :: "field \<Rightarrow> exn + bytes" where
  "pack_field (L n) =
     (if n \<le> 4294967295 then Inr (le32 n)
      else Inl (StructError (quoted ''L'' @ '' format requires 0 <= number <= 4294967295'')))"
| "pack_field (H n) =
     (if n \<le> 65535 then Inr (le16 n)
      else Inl (StructError ''ushort format requires 0 <= number <= 65535''))"
| "pack_field (S4 s) = Inr (take 4 (s @ replicate 4 0))"

fun struct_pack :: "field list \<Rightarrow> exn + bytes" where
  "struct_pack [] = Inr []"
| "struct_pack (f # fs) =
     (case pack_field f of
        Inl e \<Rightarrow> Inl e
      | Inr b \<Rightarrow> (case struct_pack fs of Inl e \<Rightarrow> Inl e | Inr bs \<Rightarrow> Inr (b @ bs)))"

section \<open>io.BytesIO\<close>

text \<open>
  The in-memory file: its content and the position of the next write. Writing at a
  position overwrites what is there and extends the content when it runs past the end
  (zero bytes fill a gap left by a seek beyond the end); writing nothing changes nothing.
\<close>

record bytesio =
  buf :: bytes
  pos :: nat

definition bio_write :: "bytes \<Rightarrow> bytesio \<Rightarrow> bytesio" where
  "bio_write d f =
     (if d = [] then f
      else (let b = buf f @ replicate (pos f - length (buf f)) 0
            in \<lparr>buf = take (pos f) b @ d @ drop (pos f + length d) b,
                pos = pos f + length d\<rparr>))"

definition bio_seek :: "nat \<Rightarrow> bytesio \<Rightarrow> bytesio" where
  "bio_seek p f = f\<lparr>pos := p\<rparr>"

definition getvalue :: "bytesio \<Rightarrow> bytes" where
  "getvalue f = buf f"

section \<open>wave.Wave_write\<close>

text \<open>
  The writer object of the standard library's \<^verbatim>\<open>wave\<close> module (CPython 3.11,
  \<^verbatim>\<open>Lib/wave.py\<close>), field by field and operation by operation. An operation takes the object
  and returns the object as it has left it together with the exception it raised, if
  any: the \<^verbatim>\<open>with\<close> statement of \<^verbatim>\<open>convert_l16_to_wav\<close> calls \<^verbatim>\<open>close\<close> on
  the object also after an exception, so the state at the raise matters.
  The host is taken to be little-endian (\<^verbatim>\<open>sys.byteorder\<close>), as the writer swaps
  bytes on a big-endian one, and no \<^verbatim>\<open>_convert\<close> hook is installed (the module never
  installs one).
\<close>

record wave_write =
  fp :: bytesio
  nchannels :: nat
  sampwidth :: nat
  framerate :: nat
  nframes :: nat
  nframeswritten :: nat
  datawritten :: nat
  datalength :: nat
  headerwritten :: bool
  form_length_pos :: nat
  data_length_pos :: nat

type_synonym writer_op = "wave_write \<Rightarrow> exn option \<times> wave_write"

definition initfp :: "bytesio \<Rightarrow> wave_write" where
  "initfp f = \<lparr>fp = f, nchannels = 0, sampwidth = 0, framerate = 0, nframes = 0,
     nframeswritten = 0, datawritten = 0, datalength = 0, headerwritten = False,
     form_length_pos = 0, data_length_pos = 0\<rparr>"

definition and_then :: "writer_op \<Rightarrow> writer_op \<Rightarrow> writer_op" where
  "and_then m1 m2 w = (case m1 w of (Some e, w1) \<Rightarrow> (Some e, w1) | (None, w1) \<Rightarrow> m2 w1)"

definition setnchannels :: "nat \<Rightarrow> writer_op" where
  "setnchannels n w =
     (if datawritten w \<noteq> 0
      then (Some (WaveError ''cannot change parameters after starting to write''), w)
      else if n < 1 then (Some (WaveError ''bad # of channels''), w)
      else (None, w\<lparr>nchannels := n\<rparr>))"

definition setsampwidth :: "nat \<Rightarrow> writer_op" where
  "setsampwidth n w =
     (if datawritten w \<noteq> 0
      then (Some (WaveError ''cannot change parameters after starting to write''), w)
      else if n < 1 \<or> n > 4 then (Some (WaveError ''bad sample width''), w)
      else (None, w\<lparr>sampwidth := n\<rparr>))"

definition setframerate :: "nat \<Rightarrow> writer_op" where
  "setframerate n w =
     (if datawritten w \<noteq> 0
      then (Some (WaveError ''cannot change parameters after starting to write''), w)
      else if n \<le> 0 then (Some (WaveError ''bad frame rate''), w)
      else (None, w\<lparr>framerate := n\<rparr>))"

definition write_header :: "nat \<Rightarrow> writer_op" where
  "write_header initlength w =
     (let w1 = w\<lparr>fp := bio_write (ascii ''RIFF'') (fp w)\<rparr>;
          w2 = (if nframes w1 = 0
                then w1\<lparr>nframes := initlength div (nchannels w1 * sampwidth w1)\<rparr>
                else w1);
          w3 = w2\<lparr>datalength := nframes w2 * nchannels w2 * sampwidth w2\<rparr>;
          w4 = w3\<lparr>form_length_pos := pos (fp w3)\<rparr>
      in case struct_pack
                [L (36 + datalength w4), S4 (ascii ''WAVE''), S4 (ascii ''fmt ''), L 16,
                 H 1, H (nchannels w4), L (framerate w4),
                 L (nchannels w4 * framerate w4 * sampwidth w4),
                 H (nchannels w4 * sampwidth w4), H (sampwidth w4 * 8),
                 S4 (ascii ''data'')] of
           Inl e \<Rightarrow> (Some e, w4)
         | Inr hdr \<Rightarrow>
             (let w5 = w4\<lparr>fp := bio_write hdr (fp w4)\<rparr>;
                  w6 = w5\<lparr>data_length_pos := pos (fp w5)\<rparr>
              in case struct_pack [L (datalength w6)] of
                   Inl e \<Rightarrow> (Some e, w6)
                 | Inr len \<Rightarrow>
                     (None, w6\<lparr>fp := bio_write len (fp w6), headerwritten := True\<rparr>)))"

definition ensure_header_written :: "nat \<Rightarrow> writer_op" where
  "ensure_header_written datasize w =
     (if \<not> headerwritten w then
        (if nchannels w = 0 then (Some (WaveError ''# channels not specified''), w)
         else if sampwidth w = 0 then (Some (WaveError ''sample width not specified''), w)
         else if framerate w = 0 then (Some (WaveError ''sampling rate not specified''), w)
         else write_header datasize w)
      else (None, w))"

definition patchheader :: writer_op where
  "patchheader w =
     (if datawritten w = datalength w then (None, w)
      else
        (let curpos = pos (fp w);
             f1 = bio_seek (form_length_pos w) (fp w)
         in case struct_pack [L (36 + datawritten w)] of
              Inl e \<Rightarrow> (Some e, w\<lparr>fp := f1\<rparr>)
            | Inr a \<Rightarrow>
                (let f2 = bio_seek (data_length_pos w) (bio_write a f1)
                 in case struct_pack [L (datawritten w)] of
                      Inl e \<Rightarrow> (Some e, w\<lparr>fp := f2\<rparr>)
                    | Inr b \<Rightarrow>
                        (None, w\<lparr>fp := bio_seek curpos (bio_write b f2),
                                  datalength := datawritten w\<rparr>))))"

definition writeframesraw :: "bytes \<Rightarrow> writer_op" where
  "writeframesraw d w =
     (case ensure_header_written (length d) w of
        (Some e, w1) \<Rightarrow> (Some e, w1)
      | (None, w1) \<Rightarrow>
          (let n = length d div (sampwidth w1 * nchannels w1)
           in (None, w1\<lparr>fp := bio_write d (fp w1),
                        datawritten := datawritten w1 + length d,
                        nframeswritten := nframeswritten w1 + n\<rparr>)))"

definition writeframes :: "bytes \<Rightarrow> writer_op" where
  "writeframes d w =
     (case writeframesraw d w of
        (Some e, w1) \<Rightarrow> (Some e, w1)
      | (None, w1) \<Rightarrow> (if datalength w1 \<noteq> datawritten w1 then patchheader w1 else (None, w1)))"

definition wave_close :: writer_op where
  "wave_close w =
     (case ensure_header_written 0 w of
        (Some e, w1) \<Rightarrow> (Some e, w1)
      | (None, w1) \<Rightarrow> (if datalength w1 \<noteq> datawritten w1 then patchheader w1 else (None, w1)))"

text \<open>
  \<^verbatim>\<open>with wave.open(f, 'wb') as wav_file: body\<close>. Leaving the block calls
  \<^verbatim>\<open>close\<close>, whether the body returned or raised; an exception of \<^verbatim>\<open>close\<close>
  replaces the body's, and otherwise the body's exception goes on.
\<close>

definition with_wave_open :: "bytesio \<Rightarrow> writer_op \<Rightarrow> exn option \<times> wave_write" where
  "with_wave_open f body =
     (case body (initfp f) of
        (None, w1) \<Rightarrow> wave_close w1
      | (Some e, w1) \<Rightarrow>
          (case wave_close w1 of (None, w2) \<Rightarrow> (Some e, w2) | (Some e2, w2) \<Rightarrow> (Some e2, w2)))"

section \<open>convert\_l16\_to\_wav\<close>

text \<open>
  The function of the program. The in-memory file \<^verbatim>\<open>wav_buffer\<close> is the one the
  writer holds, so its final content is read from the writer's \<open>fp\<close> field (\<^verbatim>\<open>_file\<close> in the library).
\<close>

definition convert_l16_to_wav :: "bytes \<Rightarrow> exn + bytes" where
  "convert_l16_to_wav pcm_data =
     (let sample_rate = 24000; num_channels = 1; sample_width = 2;
          wav_buffer = \<lparr>buf = [], pos = 0\<rparr>
      in case with_wave_open wav_buffer
                (and_then (setnchannels num_channels)
                  (and_then (setsampwidth sample_width)
                    (and_then (setframerate sample_rate)
                      (writeframes pcm_data)))) of
           (Some e, w) \<Rightarrow> Inl e
         | (None, w) \<Rightarrow> Inr (getvalue (bio_seek 0 (fp w))))"

section \<open>Parsed JSON as Python objects\<close>

text \<open>
  What \<^verbatim>\<open>response.json()\<close> returns: \<^verbatim>\<open>None\<close>, a \<^verbatim>\<open>bool\<close>, an \<^verbatim>\<open>int\<close>, a
  \<^verbatim>\<open>float\<close>, a \<^verbatim>\<open>str\<close>, a \<^verbatim>\<open>list\<close> or a \<^verbatim>\<open>dict\<close> with \<^verbatim>\<open>str\<close> keys. A
  \<^verbatim>\<open>str\<close> is its UTF-8 bytes; a \<^verbatim>\<open>dict\<close> is an association list read with
  \<open>map_of\<close>. Of a \<^verbatim>\<open>float\<close> the program only ever tests whether it is zero:
  \<open>Finite m e\<close> stands for \<open>m * 2 ^ e\<close>, beside the infinities and NaN that the parser
  accepts.
\<close>

datatype pyfloat = Finite int int | PosInf | NegInf | NaN

datatype json =
    JNull
  | JBool bool
  | JInt int
  | JFloat pyfloat
  | JString string
  | JArray "json list"
  | JObject "(string \<times> json) list"

fun type_name :: "json \<Rightarrow> string" where
  "type_name JNull = ''NoneType''"
| "type_name (JBool b) = ''bool''"
| "type_name (JInt i) = ''int''"
| "type_name (JFloat f) = ''float''"
| "type_name (JString s) = ''str''"
| "type_name (JArray xs) = ''list''"
| "type_name (JObject kvs) = ''dict''"

text \<open>\<^verbatim>\<open>if x:\<close>, the truth value of an object.\<close>

fun truthy :: "json \<Rightarrow> bool" where
  "truthy JNull = False"
| "truthy (JBool b) = b"
| "truthy (JInt i) = (i \<noteq> 0)"
| "truthy (JFloat (Finite m e)) = (m \<noteq> 0)"
| "truthy (JFloat f) = True"
| "truthy (JString s) = (s \<noteq> [])"
| "truthy (JArray xs) = (xs \<noteq> [])"
| "truthy (JObject kvs) = (kvs \<noteq> [])"

fun starts_with :: "string \<Rightarrow> string \<Rightarrow> bool" where
  "starts_with [] s = True"
| "starts_with (k # ks) [] = False"
| "starts_with (k # ks) (c # cs) = (k = c \<and> starts_with ks cs)"

fun is_substring :: "string \<Rightarrow> string \<Rightarrow> bool" where
  "is_substring k [] = (k = [])"
| "is_substring k (c # cs) = (starts_with k (c # cs) \<or> is_substring k cs)"

text \<open>
  \<^verbatim>\<open>k in x\<close> for a \<^verbatim>\<open>str\<close> \<open>k\<close>: a key of a \<^verbatim>\<open>dict\<close>, an element of a
  \<^verbatim>\<open>list\<close>, a substring of a \<^verbatim>\<open>str\<close>; the other types are not iterable.
\<close>

fun py_contains :: "string \<Rightarrow> json \<Rightarrow> exn + bool" where
  "py_contains k (JObject kvs) = Inr (k \<in> set (map fst kvs))"
| "py_contains k (JArray xs) = Inr (JString k \<in> set xs)"
| "py_contains k (JString s) = Inr (is_substring k s)"
| "py_contains k v =
     Inl (TypeError (''argument of type '' @ quoted (type_name v) @ '' is not iterable''))"

text \<open>\<^verbatim>\<open>x[k]\<close> for a \<^verbatim>\<open>str\<close> \<open>k\<close>.\<close>

fun py_getitem :: "string \<Rightarrow> json \<Rightarrow> exn + json" where
  "py_getitem k (JObject kvs) =
     (case map_of kvs k of None \<Rightarrow> Inl (KeyError (quoted k)) | Some v \<Rightarrow> Inr v)"
| "py_getitem k (JArray xs) =
     Inl (TypeError ''list indices must be integers or slices, not str'')"
| "py_getitem k (JString s) =
     Inl (TypeError (''string indices must be integers, not '' @ quoted ''str''))"
| "py_getitem k v = Inl (TypeError (quoted (type_name v) @ '' object is not subscriptable''))"

text \<open>
  A byte that continues a UTF-8 sequence: \<^verbatim>\<open>len\<close> of a \<^verbatim>\<open>str\<close> counts the others,
  and \<^verbatim>\<open>s[0]\<close> is the first byte with the continuation bytes after it.
\<close>

definition is_cont :: "char \<Rightarrow> bool" where
  "is_cont c = (128 \<le> (of_char c :: nat) \<and> (of_char c :: nat) < 192)"

fun py_len :: "json \<Rightarrow> exn + nat" where
  "py_len (JObject kvs) = Inr (length (remdups (map fst kvs)))"
| "py_len (JArray xs) = Inr (length xs)"
| "py_len (JString s) = Inr (length (filter (\<lambda>c. \<not> is_cont c) s))"
| "py_len v = Inl (TypeError (''object of type '' @ quoted (type_name v) @ '' has no len()''))"

text \<open>\<^verbatim>\<open>x[0]\<close>. The keys of a parsed JSON object are strings, so \<open>0\<close> is never one.\<close>

fun py_getitem0 :: "json \<Rightarrow> exn + json" where
  "py_getitem0 (JArray []) = Inl (IndexError ''list index out of range'')"
| "py_getitem0 (JArray (x # xs)) = Inr x"
| "py_getitem0 (JString []) = Inl (IndexError ''string index out of range'')"
| "py_getitem0 (JString (c # cs)) = Inr (JString (c # takeWhile is_cont cs))"
| "py_getitem0 (JObject kvs) = Inl (KeyError ''0'')"
| "py_getitem0 v = Inl (TypeError (quoted (type_name v) @ '' object is not subscriptable''))"

text \<open>\<^verbatim>\<open>x.get(k)\<close>: only a \<^verbatim>\<open>dict\<close> has it; a missing key gives \<^verbatim>\<open>None\<close>.\<close>

fun py_get :: "string \<Rightarrow> json \<Rightarrow> exn + json" where
  "py_get k (JObject kvs) = Inr (case map_of kvs k of None \<Rightarrow> JNull | Some v \<Rightarrow> v)"
| "py_get k v =
     Inl (AttributeError (quoted (type_name v) @ '' object has no attribute '' @ quoted ''get''))"

section \<open>base64.b64decode\<close>

text \<open>
  Decimal digits of a number, as \<^verbatim>\<open>str\<close> and the formatting operators print it.
\<close>

function str_nat :: "nat \<Rightarrow> string" where
  "str_nat n =
     (if n < 10 then [''0123456789'' ! n]
      else str_nat (n div 10) @ [''0123456789'' ! (n mod 10)])"
  by pat_completeness auto
termination
  by (relation "measure id") auto

declare str_nat.simps [simp del]

text \<open>
  \<^verbatim>\<open>binascii.a2b_base64\<close> in its default, non-strict mode (CPython 3.11): characters
  outside the alphabet are skipped, a padding sign counts only once two characters of
  a quad have been read, a complete padding ends the decoding, and input that stops in
  the middle of a quad raises \<^verbatim>\<open>binascii.Error\<close>. The state is the position in the
  quad, the bits left over, the padding signs seen in a row and the bytes produced.
\<close>

definition b64_value :: "char \<Rightarrow> nat option" where
  "b64_value c =
     (let n = (of_char c :: nat)
      in if 65 \<le> n \<and> n \<le> 90 then Some (n - 65)
         else if 97 \<le> n \<and> n \<le> 122 then Some (n - 71)
         else if 48 \<le> n \<and> n \<le> 57 then Some (n + 4)
         else if n = 43 then Some 62
         else if n = 47 then Some 63
         else None)"

fun a2b_base64 :: "nat \<Rightarrow> nat \<Rightarrow> nat \<Rightarrow> bytes \<Rightarrow> string \<Rightarrow> exn + bytes" where
  "a2b_base64 quad_pos leftchar pads out [] =
     (if quad_pos = 0 then Inr out
      else if quad_pos = 1 then
        Inl (BinasciiError (''Invalid base64-encoded string: number of data characters (''
               @ str_nat (length out div 3 * 4 + 1)
               @ '') cannot be 1 more than a multiple of 4''))
      else Inl (BinasciiError ''Incorrect padding''))"
| "a2b_base64 quad_pos leftchar pads out (c # cs) =
     (if c = CHR ''='' then
        (if quad_pos \<ge> 2 \<and> quad_pos + (pads + 1) \<ge> 4 then Inr out
         else a2b_base64 quad_pos leftchar (if quad_pos \<ge> 2 then pads + 1 else pads) out cs)
      else
        (case b64_value c of
           None \<Rightarrow> a2b_base64 quad_pos leftchar pads out cs
         | Some v \<Rightarrow>
             (if quad_pos = 0 then a2b_base64 1 v 0 out cs
              else if quad_pos = 1 then
                a2b_base64 2 (v mod 16) 0 (out @ [word_of_nat (leftchar * 4 + v div 16)]) cs
              else if quad_pos = 2 then
                a2b_base64 3 (v mod 4) 0 (out @ [word_of_nat (leftchar * 16 + v div 4)]) cs
              else a2b_base64 0 0 0 (out @ [word_of_nat (leftchar * 64 + v)]) cs)))"

text \<open>
  \<^verbatim>\<open>base64.b64decode(x)\<close> on a parsed JSON value: a \<^verbatim>\<open>str\<close> must be ASCII, and
  nothing else that JSON yields is bytes-like.
\<close>

fun b64decode :: "json \<Rightarrow> exn + bytes" where
  "b64decode (JString s) =
     (if list_all (\<lambda>c. (of_char c :: nat) < 128) s then a2b_base64 0 0 0 [] s
      else Inl (ValueError ''string argument should contain only ASCII characters''))"
| "b64decode v =
     Inl (TypeError (''argument should be a bytes-like object or ASCII string, not ''
            @ quoted (type_name v)))"

section \<open>The HTTP call\<close>

text \<open>
  A request as \<^verbatim>\<open>requests.post(url, headers=headers, data=json.dumps(payload))\<close>
  sends it; \<open>data\<close> is the document that \<^verbatim>\<open>json.dumps\<close> serialises. A response
  carries the status line and what \<^verbatim>\<open>response.json()\<close> does with the body: the
  parsed value or the exception of the parser.

  The network is the program's environment: \<open>respond\<close> tells how the \<open>n\<close>-th call
  ends (an exception of \<^verbatim>\<open>requests.post\<close>, or a response), and \<open>sent\<close> records
  the requests made so far, so that the number of calls can be stated.
\<close>

record request =
  url :: string
  headers :: "(string \<times> string) list"
  data :: json

record response =
  status_code :: nat
  reason :: string
  resp_url :: string
  json_body :: "exn + json"

record network =
  respond :: "nat \<Rightarrow> request \<Rightarrow> exn + response"
  sent :: "request list"

definition requests_post ::
  "request \<Rightarrow> network \<Rightarrow> (exn + response) \<times> network" where
  "requests_post req net = (respond net (length (sent net)) req, net\<lparr>sent := sent net @ [req]\<rparr>)"

text \<open>
  \<^verbatim>\<open>Response.raise_for_status\<close> of the requests library: an \<^verbatim>\<open>HTTPError\<close> (a
  \<^verbatim>\<open>RequestException\<close>) for a status from 400 to 599, and nothing for any other.
\<close>

definition raise_for_status :: "response \<Rightarrow> exn + unit" where
  "raise_for_status r =
     (if 400 \<le> status_code r \<and> status_code r < 500 then
        Inl (RequestException (str_nat (status_code r) @ '' Client Error: '' @ reason r
               @ '' for url: '' @ resp_url r))
      else if 500 \<le> status_code r \<and> status_code r < 600 then
        Inl (RequestException (str_nat (status_code r) @ '' Server Error: '' @ reason r
               @ '' for url: '' @ resp_url r))
      else Inr ())"

section \<open>generate\_speech\<close>

text \<open>Sequencing of steps that may raise: the first exception ends the block.\<close>

definition bind :: "exn + 'a \<Rightarrow> ('a \<Rightarrow> exn + 'b) \<Rightarrow> exn + 'b" where
  "bind m f = (case m of Inl e \<Rightarrow> Inl e | Inr x \<Rightarrow> f x)"

type_synonym speech_result = "bytes option \<times> string option"

text \<open>
  The request of lines 35 to 56. The parameter \<^verbatim>\<open>voice_name="Puck"\<close> has a default:
  a call that leaves the argument out is \<open>None\<close> here.
\<close>

definition mk_request :: "string \<Rightarrow> string \<Rightarrow> string option \<Rightarrow> request" where
  "mk_request api_key text voice_arg =
     (let voice_name = (case voice_arg of None \<Rightarrow> ''Puck'' | Some v \<Rightarrow> v)
      in \<lparr>url = ''https://generativelanguage.googleapis.com/v1beta/models/gemini-2.5-flash-preview-tts:generateContent?key=''
                 @ api_key,
          headers = [(''Content-Type'', ''application/json'')],
          data = JObject
            [(''contents'',
                JArray [JObject [(''role'', JString ''user''),
                                 (''parts'', JArray [JObject [(''text'', JString text)]])]]),
             (''generationConfig'',
                JObject
                  [(''responseModalities'', JArray [JString ''AUDIO'']),
                   (''speechConfig'',
                      JObject [(''voiceConfig'',
                        JObject [(''prebuiltVoiceConfig'',
                          JObject [(''voiceName'', JString voice_name)])])])])]\<rparr>)"

text \<open>
  Lines 68 to 75: what is done with a non-empty \<^verbatim>\<open>inline_data\<close>. \<^verbatim>\<open>or\<close> evaluates
  its right operand only when the left one is false.
\<close>

definition decode_inline_data :: "json \<Rightarrow> exn + speech_result" where
  "decode_inline_data inline_data =
     bind (py_getitem ''data'' inline_data) (\<lambda>d.
     bind (b64decode d) (\<lambda>audio_data.
     bind (py_getitem ''mimeType'' inline_data) (\<lambda>mime_type.
     bind (py_contains ''audio/L16'' mime_type) (\<lambda>l16.
     bind (if l16 then Inr True else py_contains ''audio/pcm'' mime_type) (\<lambda>raw.
     if raw
     then bind (convert_l16_to_wav audio_data) (\<lambda>wav. Inr (Some wav, None))
     else Inr (Some audio_data, None))))))"

text \<open>
  Lines 65 to 77: the navigation of the parsed answer. \<^verbatim>\<open>and\<close> evaluates its right
  operand only when the left one is true. Both ways out of the two \<^verbatim>\<open>if\<close>s reach the
  \<^verbatim>\<open>return\<close> of line 77.
\<close>

definition extract_audio :: "json \<Rightarrow> exn + speech_result" where
  "extract_audio result =
     bind (py_contains ''candidates'' result) (\<lambda>has.
     bind (if has
           then bind (py_getitem ''candidates'' result) (\<lambda>cs.
                bind (py_len cs) (\<lambda>n. Inr (n > 0)))
           else Inr False) (\<lambda>found.
     if found then
       bind (py_getitem ''candidates'' result) (\<lambda>cs.
       bind (py_getitem0 cs) (\<lambda>c0.
       bind (py_getitem ''content'' c0) (\<lambda>content.
       bind (py_getitem ''parts'' content) (\<lambda>parts.
       bind (py_getitem0 parts) (\<lambda>p0.
       bind (py_get ''inlineData'' p0) (\<lambda>inline_data.
       if truthy inline_data then decode_inline_data inline_data
       else Inr (None, Some ''No audio data in response'')))))))
     else Inr (None, Some ''No audio data in response'')))"

text \<open>Lines 59 to 77, from the outcome of the call on.\<close>

definition try_block :: "exn + response \<Rightarrow> exn + speech_result" where
  "try_block outcome =
     bind outcome (\<lambda>response.
     bind (raise_for_status response) (\<lambda>u.
     bind (json_body response) extract_audio))"

text \<open>The two handlers of lines 79 to 82, in their order.\<close>

definition handlers :: "exn \<Rightarrow> speech_result" where
  "handlers e =
     (if is_request_exception e then (None, Some (''API Error: '' @ str_exn e))
      else (None, Some (''Error: '' @ str_exn e)))"

definition generate_speech ::
  "string \<Rightarrow> string \<Rightarrow> string option \<Rightarrow> network \<Rightarrow> speech_result \<times> network" where
  "generate_speech api_key text voice_arg net =
     (case requests_post (mk_request api_key text voice_arg) net of
        (outcome, net1) \<Rightarrow>
          (case try_block outcome of
             Inr r \<Rightarrow> (r, net1)
           | Inl e \<Rightarrow> (handlers e, net1)))"

section \<open>Shapes of answers, for stating the claims\<close>

text \<open>
  The path \<^verbatim>\<open>candidates[0].content.parts[0]\<close> of the specification, read on a
  parsed answer: a field of an object, the first element of a non-empty array, and
  \<open>None\<close> where a step does not exist. These functions are not part of the program;
  they say which answers a claim is about.
\<close>

fun obj_field :: "string \<Rightarrow> json \<Rightarrow> json option" where
  "obj_field k (JObject kvs) = map_of kvs k"
| "obj_field k v = None"

fun first_elem :: "json \<Rightarrow> json option" where
  "first_elem (JArray (x # xs)) = Some x"
| "first_elem v = None"

definition first_candidate :: "json \<Rightarrow> json option" where
  "first_candidate j = Option.bind (obj_field ''candidates'' j) first_elem"

definition first_part :: "json \<Rightarrow> json option" where
  "first_part j =
     Option.bind (first_candidate j) (\<lambda>c.
     Option.bind (obj_field ''content'' c) (\<lambda>ct.
     Option.bind (obj_field ''parts'' ct) first_elem))"

definition voice_name_sent :: "request \<Rightarrow> json option" where
  "voice_name_sent req =
     Option.bind (obj_field ''generationConfig'' (data req)) (\<lambda>g.
     Option.bind (obj_field ''speechConfig'' g) (\<lambda>s.
     Option.bind (obj_field ''voiceConfig'' s) (\<lambda>v.
     Option.bind (obj_field ''prebuiltVoiceConfig'' v) (obj_field ''voiceName''))))"

text \<open>
  The call number \<open>length (sent net)\<close> succeeds (no exception of \<^verbatim>\<open>requests.post\<close>,
  none of \<^verbatim>\<open>raise_for_status\<close>) and its body parses to \<open>j\<close>.
\<close>

definition answers :: "network \<Rightarrow> request \<Rightarrow> json \<Rightarrow> bool" where
  "answers net req j =
     (case respond net (length (sent net)) req of
        Inl e \<Rightarrow> False
      | Inr r \<Rightarrow> raise_for_status r = Inr () \<and> json_body r = Inr j)"

text \<open>A network that answers every request with the same status and parsed body.\<close>

definition answering :: "nat \<Rightarrow> json \<Rightarrow> network" where
  "answering status j =
     \<lparr>respond = (\<lambda>n req. Inr \<lparr>status_code = status, reason = ''OK'', resp_url = url req,
                                json_body = Inr j\<rparr>),
      sent = []\<rparr>"

text \<open>An answer with the audio path in place: the given mime type and base64 text.\<close>

definition audio_answer :: "string \<Rightarrow> string \<Rightarrow> json" where
  "audio_answer mime b64 =
     JObject [(''candidates'',
       JArray [JObject [(''content'',
         JObject [(''parts'',
           JArray [JObject [(''inlineData'',
             JObject [(''mimeType'', JString mime), (''data'', JString b64)])]])])]])]"

text \<open>
  A result with exactly one of its two components: audio and no error, or an error and
  no audio; and a block that, where it returns, returns such a result.
\<close>

definition one_of :: "speech_result \<Rightarrow> bool" where
  "one_of r = ((fst r = None) \<noteq> (snd r = None))"

definition good :: "exn + speech_result \<Rightarrow> bool" where
  "good z = (case z of Inl e \<Rightarrow> True | Inr r \<Rightarrow> one_of r)"

section \<open>Reading a WAV container\<close>

text \<open>
  The decoder against which the containers are checked: a reader of the RIFF/WAVE
  layout in the manner of the reading half of the same library (\<^verbatim>\<open>wave.Wave_read\<close>).
  It is not part of the program. A file is a \<^verbatim>\<open>RIFF\<close> chunk whose content starts
  with \<^verbatim>\<open>WAVE\<close> and goes on with chunks (a four byte name, a 32 bit little-endian
  size, the content, padded to an even length). The reader walks the chunks, takes the
  format from the \<^verbatim>\<open>fmt \<close> chunk (PCM only), stops at the \<^verbatim>\<open>data\<close> chunk and skips
  every other one; the number of frames is the declared size of the data chunk divided
  by the frame size, and \<^verbatim>\<open>readframes(getnframes())\<close> yields that many whole
  frames of the chunk's content.
\<close>

record wav_format =
  channels :: nat
  sample_rate :: nat
  bits_per_sample :: nat

record wav_audio =
  format :: wav_format
  frame_count :: nat
  frames :: bytes

definition read_fmt_chunk :: "bytes \<Rightarrow> exn + wav_format" where
  "read_fmt_chunk body =
     (if length body < 14 then Inl EOFError
      else if unle (take 2 body) \<noteq> 1 then
        Inl (WaveError (''unknown format: '' @ str_nat (unle (take 2 body))))
      else if length body < 16 then Inl EOFError
      else if (unle (take 2 (drop 14 body)) + 7) div 8 = 0 then
        Inl (WaveError ''bad sample width'')
      else if unle (take 2 (drop 2 body)) = 0 then Inl (WaveError ''bad # of channels'')
      else Inr \<lparr>channels = unle (take 2 (drop 2 body)),
                sample_rate = unle (take 4 (drop 4 body)),
                bits_per_sample = unle (take 2 (drop 14 body))\<rparr>)"

function read_chunks ::
  "wav_format option \<Rightarrow> bytes \<Rightarrow> exn + (wav_format \<times> nat \<times> bytes)" where
  "read_chunks fmt bs =
     (if length bs < 8 then Inl (WaveError ''fmt chunk and/or data chunk missing'')
      else if take 4 bs = ascii ''fmt '' then
        (case read_fmt_chunk (take (unle (take 4 (drop 4 bs))) (drop 8 bs)) of
           Inl e \<Rightarrow> Inl e
         | Inr f \<Rightarrow>
             read_chunks (Some f)
               (drop (8 + unle (take 4 (drop 4 bs)) + unle (take 4 (drop 4 bs)) mod 2) bs))
      else if take 4 bs = ascii ''data'' then
        (case fmt of
           None \<Rightarrow> Inl (WaveError ''data chunk before fmt chunk'')
         | Some f \<Rightarrow>
             Inr (f, unle (take 4 (drop 4 bs)), take (unle (take 4 (drop 4 bs))) (drop 8 bs)))
      else
        read_chunks fmt
          (drop (8 + unle (take 4 (drop 4 bs)) + unle (take 4 (drop 4 bs)) mod 2) bs))"
  by pat_completeness auto
termination
  by (relation "measure (\<lambda>(fmt, bs). length bs)") auto

declare read_chunks.simps [simp del]

definition wav_decode :: "bytes \<Rightarrow> exn + wav_audio" where
  "wav_decode bs =
     (if length bs < 8 then Inl EOFError
      else if take 4 bs \<noteq> ascii ''RIFF'' then
        Inl (WaveError ''file does not start with RIFF id'')
      else if take 4 (take (unle (take 4 (drop 4 bs))) (drop 8 bs)) \<noteq> ascii ''WAVE'' then
        Inl (WaveError ''not a WAVE file'')
      else
        (case read_chunks None (drop 4 (take (unle (take 4 (drop 4 bs))) (drop 8 bs))) of
           Inl e \<Rightarrow> Inl e
         | Inr (f, chunksize, d) \<Rightarrow>
             (let framesize = channels f * ((bits_per_sample f + 7) div 8);
                  nframes = chunksize div framesize
              in Inr \<lparr>format = f, frame_count = nframes,
                      frames = take (nframes * framesize) d\<rparr>)))"

section \<open>The container that the encoder writes\<close>

text \<open>
  The 44 bytes in front of the samples, for a data chunk of \<open>n\<close> bytes: the RIFF
  name and size, then the part that does not depend on \<open>n\<close> (\<^verbatim>\<open>WAVE\<close>, the format
  chunk for PCM, one channel, 24000 Hz, 48000 bytes per second, frames of 2 bytes,
  16 bits, and the name of the data chunk), then the size of the data chunk.
\<close>

definition wav_mid :: bytes where
  "wav_mid = ascii ''WAVEfmt '' @ le32 16 @ le16 1 @ le16 1
     @ le32 24000 @ le32 48000 @ le16 2 @ le16 16 @ ascii ''data''"

definition wav_header :: "nat \<Rightarrow> bytes" where
  "wav_header n = ascii ''RIFF'' @ le32 (36 + n) @ wav_mid @ le32 n"

text \<open>The exception of a 32 bit field that cannot hold its number.\<close>

definition too_large :: exn where
  "too_large = StructError (quoted ''L'' @ '' format requires 0 <= number <= 4294967295'')"

text \<open>
  Two states of the writer inside \<^verbatim>\<open>convert_l16_to_wav\<close>: after the three setters,
  and after a header declaring \<open>hl\<close> data bytes (computed from an input of \<open>n\<close>
  bytes) and the samples \<open>d\<close> have been written.
\<close>

definition ready :: "wave_write" where
  "ready = (initfp \<lparr>buf = [], pos = 0\<rparr>)\<lparr>nchannels := 1, sampwidth := 2, framerate := 24000\<rparr>"

definition written :: "nat \<Rightarrow> nat \<Rightarrow> bytes \<Rightarrow> wave_write" where
  "written hl n d = \<lparr>fp = \<lparr>buf = wav_header hl @ d, pos = 44 + length d\<rparr>, nchannels = 1,
     sampwidth = 2, framerate = 24000, nframes = n div 2, nframeswritten = length d div 2,
     datawritten = length d, datalength = hl, headerwritten = True, form_length_pos = 4,
     data_length_pos = 40\<rparr>"

section \<open>Little-endian fields\<close>

lemma len_le32: "length (le32 n) = 4"
  by (simp add: le32_def)

lemma len_le16: "length (le16 n) = 2"
  by (simp add: le16_def)

lemma le32_ne: "le32 n \<noteq> []"
  by (simp add: le32_def)

lemma unat_byte: "unat (word_of_nat m :: byte) = m mod 256"
  by (simp add: unat_of_nat)

lemma split256: "(m::nat) mod 256 + 256 * (m div 256) = m"
  by simp

lemma unle_le32:
  assumes "n < 4294967296"
  shows "unle (le32 n) = n"
proof -
  have e1: "n div 65536 = n div 256 div 256"
    using div_mult2_eq [of n 256 256] by simp
  have e2: "n div 16777216 = n div 256 div 256 div 256"
    using div_mult2_eq [of n 65536 256] e1 by simp
  have "n div 16777216 < 256" using assms by simp
  then have a: "n div 256 div 256 div 256 mod 256 = n div 256 div 256 div 256"
    using e2 by simp
  show ?thesis
    unfolding le32_def unle.simps unat_byte e1 e2 a
    by (simp only: split256 mult_0_right add_0_right)
qed

lemma unle_le16:
  assumes "n < 65536"
  shows "unle (le16 n) = n"
proof -
  have "n div 256 < 256" using assms by simp
  then have a: "n div 256 mod 256 = n div 256" by simp
  show ?thesis
    unfolding le16_def unle.simps unat_byte a
    by (simp only: split256 mult_0_right add_0_right)
qed

lemma len_wav_mid: "length wav_mid = 32"
  by (simp add: wav_mid_def ascii_def le32_def le16_def)

lemma len_wav_header: "length (wav_header n) = 44"
  by (simp add: wav_header_def ascii_def len_le32 len_wav_mid)

section \<open>The writer, step by step\<close>

lemma setters:
  "and_then (setnchannels 1) (and_then (setsampwidth 2) (and_then (setframerate 24000) m))
     (initfp \<lparr>buf = [], pos = 0\<rparr>) = m ready"
  by (simp add: and_then_def setnchannels_def setsampwidth_def setframerate_def initfp_def
      ready_def)

lemma write_header_ready:
  assumes "n div 2 * 2 \<le> 4294967259"
  shows "write_header n ready = (None, written (n div 2 * 2) n [])"
  using assms
  by (simp add: write_header_def ready_def initfp_def written_def wav_header_def wav_mid_def
      bio_write_def ascii_def len_le32 len_le16 le32_ne Let_def)

lemma write_header_long:
  assumes "nchannels w = 1" "sampwidth w = 2"
    and "4294967259 < (if nframes w = 0 then k div 2 else nframes w) * 2"
  shows "fst (write_header k w) = Some too_large"
    and "nframes (snd (write_header k w)) = (if nframes w = 0 then k div 2 else nframes w)"
    and "nchannels (snd (write_header k w)) = 1"
    and "sampwidth (snd (write_header k w)) = 2"
    and "framerate (snd (write_header k w)) = framerate w"
    and "headerwritten (snd (write_header k w)) = headerwritten w"
  using assms
  by (auto simp add: write_header_def Let_def too_large_def split: if_splits)

lemma writeframesraw_ready:
  assumes "length d div 2 * 2 \<le> 4294967259"
  shows "writeframesraw d ready = (None, written (length d div 2 * 2) (length d) d)"
proof -
  have "ensure_header_written (length d) ready = write_header (length d) ready"
    by (simp add: ensure_header_written_def ready_def initfp_def)
  then show ?thesis
    using write_header_ready [OF assms]
    by (simp add: writeframesraw_def written_def bio_write_def len_wav_header Let_def)
qed

lemma patchheader_written:
  assumes "length d \<le> 4294967259"
  shows "patchheader (written hl n d) = (None, written (length d) n d)"
proof (cases "length d = hl")
  case True
  then show ?thesis by (simp add: patchheader_def written_def)
next
  case False
  have "buf (fp (snd (patchheader (written hl n d)))) = wav_header (length d) @ d"
    using False assms
    by (simp add: patchheader_def written_def bio_write_def bio_seek_def Let_def le32_ne len_le32
        wav_header_def ascii_def len_wav_mid)
  moreover have "patchheader (written hl n d)
      = (None, (written hl n d)\<lparr>fp := \<lparr>buf = buf (fp (snd (patchheader (written hl n d)))),
                                        pos = 44 + length d\<rparr>,
               datalength := length d\<rparr>)"
    using False assms
    by (simp add: patchheader_def written_def bio_write_def bio_seek_def Let_def le32_ne len_le32
        wav_header_def ascii_def len_wav_mid)
  ultimately show ?thesis by (simp add: written_def)
qed

lemma half_le: "n \<le> 4294967259 \<Longrightarrow> n div 2 * 2 \<le> (4294967259::nat)"
  by simp

lemma half_gt: "4294967259 < n \<Longrightarrow> (4294967259::nat) < n div 2 * 2"
  by (cases "even n") (auto elim!: evenE oddE)

lemma writeframes_ready:
  assumes "length d \<le> 4294967259"
  shows "writeframes d ready = (None, written (length d) (length d) d)"
proof -
  have r: "writeframesraw d ready = (None, written (length d div 2 * 2) (length d) d)"
    using assms by (intro writeframesraw_ready half_le)
  show ?thesis
  proof (cases "length d div 2 * 2 = length d")
    case True
    then show ?thesis using r by (simp add: writeframes_def written_def)
  next
    case False
    then show ?thesis
      using r patchheader_written [OF assms, of "length d div 2 * 2" "length d"]
      by (simp add: writeframes_def written_def)
  qed
qed

lemma wave_close_written: "wave_close (written (length d) n d) = (None, written (length d) n d)"
  by (simp add: wave_close_def ensure_header_written_def written_def)

text \<open>
  What \<^verbatim>\<open>convert_l16_to_wav\<close> returns, for every input: the header and the input
  when the RIFF size \<open>36 + len\<close> fits 32 bits, and \<^verbatim>\<open>struct.error\<close> otherwise
  (raised by the header's packing, and once more by \<^verbatim>\<open>close\<close>).
\<close>

lemma convert_ok:
  assumes "length S \<le> 4294967259"
  shows "convert_l16_to_wav S = Inr (wav_header (length S) @ S)"
proof -
  have "with_wave_open \<lparr>buf = [], pos = 0\<rparr>
          (and_then (setnchannels 1) (and_then (setsampwidth 2)
             (and_then (setframerate 24000) (writeframes S))))
        = (None, written (length S) (length S) S)"
    unfolding with_wave_open_def setters writeframes_ready [OF assms]
    by (simp add: wave_close_written)
  then show ?thesis
    by (simp add: convert_l16_to_wav_def written_def bio_seek_def getvalue_def)
qed

lemma convert_too_long:
  assumes "4294967259 < length S"
  shows "convert_l16_to_wav S = Inl too_large"
proof -
  define w1 where "w1 = snd (write_header (length S) ready)"
  have big: "4294967259 < length S div 2 * 2" using assms by (rule half_gt)
  have nz: "length S div 2 \<noteq> 0" using big by auto
  have rdy: "nchannels ready = 1" "sampwidth ready = 2" "nframes ready = 0"
    "framerate ready = 24000" "\<not> headerwritten ready"
    by (simp_all add: ready_def initfp_def)
  have pre: "4294967259 < (if nframes ready = 0 then length S div 2 else nframes ready) * 2"
    using big rdy by simp
  note h = write_header_long [OF rdy(1) rdy(2) pre]
  have e1: "write_header (length S) ready = (Some too_large, w1)"
    using h(1) by (simp add: w1_def prod_eq_iff)
  have w1: "nchannels w1 = 1" "sampwidth w1 = 2" "nframes w1 = length S div 2"
      "framerate w1 = 24000" "\<not> headerwritten w1"
    using h rdy by (simp_all add: w1_def)
  have body: "writeframes S ready = (Some too_large, w1)"
    using e1 rdy by (simp add: writeframes_def writeframesraw_def ensure_header_written_def)
  have pre2: "4294967259 < (if nframes w1 = 0 then 0 div 2 else nframes w1) * 2"
    using big nz w1 by simp
  note h2 = write_header_long [OF w1(1) w1(2) pre2]
  obtain w2 where "write_header 0 w1 = (Some too_large, w2)"
    using h2(1) by (cases "write_header 0 w1") simp
  then have cl: "wave_close w1 = (Some too_large, w2)"
    using w1 by (simp add: wave_close_def ensure_header_written_def)
  have "fst (with_wave_open \<lparr>buf = [], pos = 0\<rparr>
          (and_then (setnchannels 1) (and_then (setsampwidth 2)
             (and_then (setframerate 24000) (writeframes S))))) = Some too_large"
    unfolding with_wave_open_def setters body by (simp add: cl)
  then show ?thesis
    by (auto simp add: convert_l16_to_wav_def split: prod.splits option.splits)
qed

section \<open>The reader on the encoder's containers\<close>

lemma wav_mid_bytes:
  "wav_mid = [87, 65, 86, 69, 102, 109, 116, 32, 16, 0, 0, 0, 1, 0, 1, 0,
              192, 93, 0, 0, 128, 187, 0, 0, 2, 0, 16, 0, 100, 97, 116, 97]"
  by (simp add: wav_mid_def ascii_def le32_def le16_def)

lemma ascii_names:
  "ascii ''RIFF'' = [82, 73, 70, 70]" "ascii ''WAVE'' = [87, 65, 86, 69]"
  "ascii ''fmt '' = [102, 109, 116, 32]" "ascii ''data'' = [100, 97, 116, 97]"
  by (simp_all add: ascii_def)

lemma read_data_chunk:
  assumes "n < 4294967296" "length S = n"
  shows "read_chunks (Some f) (ascii ''data'' @ le32 n @ S) = Inr (f, n, S)"
  using assms
  by (subst read_chunks.simps) (simp add: ascii_names len_le32 unle_le32)

lemma read_fmt:
  "read_fmt_chunk [1, 0, 1, 0, 192, 93, 0, 0, 128, 187, 0, 0, 2, 0, 16, 0]
     = Inr \<lparr>channels = 1, sample_rate = 24000, bits_per_sample = 16\<rparr>"
  by (simp add: read_fmt_chunk_def)

lemma read_chunks_encoded:
  assumes "n < 4294967296" "length S = n"
  shows "read_chunks None (drop 4 wav_mid @ le32 n @ S)
     = Inr (\<lparr>channels = 1, sample_rate = 24000, bits_per_sample = 16\<rparr>, n, S)"
proof -
  have "read_chunks None (drop 4 wav_mid @ le32 n @ S)
      = read_chunks (Some \<lparr>channels = 1, sample_rate = 24000, bits_per_sample = 16\<rparr>)
          (ascii ''data'' @ le32 n @ S)"
    by (subst read_chunks.simps) (simp add: wav_mid_bytes ascii_names read_fmt len_le32)
  then show ?thesis using read_data_chunk [OF assms] by simp
qed

lemma wav_decode_encoded:
  assumes "length S \<le> 4294967259"
  shows "wav_decode (wav_header (length S) @ S)
     = Inr \<lparr>format = \<lparr>channels = 1, sample_rate = 24000, bits_per_sample = 16\<rparr>,
            frame_count = length S div 2, frames = take (length S div 2 * 2) S\<rparr>"
proof -
  have n: "length S < 4294967296" "36 + length S < 4294967296" using assms by simp_all
  have sz: "unle (take 4 (drop 4 (wav_header (length S) @ S))) = 36 + length S"
    using n(2) by (simp add: wav_header_def ascii_names len_le32 unle_le32)
  have body: "take (36 + length S) (drop 8 (wav_header (length S) @ S)) = wav_mid @ le32 (length S) @ S"
    by (simp add: wav_header_def ascii_names len_le32 len_wav_mid)
  have w: "take 4 (wav_mid @ le32 (length S) @ S) = ascii ''WAVE''"
    by (simp add: wav_mid_bytes ascii_names)
  have r: "take 4 (wav_header (length S) @ S) = ascii ''RIFF''"
    by (simp add: wav_header_def ascii_names)
  have d: "drop 4 (wav_mid @ le32 (length S) @ S) = drop 4 wav_mid @ le32 (length S) @ S"
    by (simp add: len_wav_mid)
  show ?thesis
    unfolding wav_decode_def sz body w r d read_chunks_encoded [OF n(1) refl]
    by (simp add: len_wav_header Let_def)
qed


lemma header_fields:
  "unle (take 2 (drop 22 (wav_header n @ S))) = 1"
  "unle (take 4 (drop 24 (wav_header n @ S))) = 24000"
  "unle (take 2 (drop 34 (wav_header n @ S))) = 16"
  "take 4 (drop 36 (wav_header n @ S)) = ascii ''data''"
  by (simp_all add: wav_header_def wav_mid_bytes ascii_names len_le32)

lemma header_data_size:
  assumes "n < 4294967296"
  shows "unle (take 4 (drop 40 (wav_header n @ S))) = n"
  using assms by (simp add: wav_header_def ascii_names len_le32 len_wav_mid unle_le32)

section \<open>Claims about the container encoder\<close>

text \<open>
  C1, as the specification states it: for every byte sequence of even length, encoding
  and then decoding gives the sequence back. It fails where the encoder cannot write a
  container at all: the RIFF size field holds \<open>36 + len\<close> in 32 bits, and for an input
  of 4294967260 bytes (an even length) the packing of the header raises
  \<^verbatim>\<open>struct.error\<close>, so there is nothing to decode.
\<close>

theorem C1_counterexample:
  "even (length (replicate 4294967260 (0::byte)))
   \<and> convert_l16_to_wav (replicate 4294967260 0) = Inl too_large"
  using convert_too_long [of "replicate 4294967260 0"] by simp

text \<open>
  C1, amended: for every byte sequence \<open>S\<close> of even length up to 4294967259 bytes
  (so that \<open>36 + len\<close> fits the 32 bit size field), \<^verbatim>\<open>convert_l16_to_wav\<close> returns a
  container, and decoding that container yields exactly \<open>S\<close>, with channel count 1,
  sample rate 24000 and bit depth 16 (in \<open>len div 2\<close> frames).
\<close>

theorem C1_roundtrip:
  assumes "even (length S)" and "length S \<le> 4294967259"
  shows "\<exists>w. convert_l16_to_wav S = Inr w
           \<and> wav_decode w
               = Inr \<lparr>format = \<lparr>channels = 1, sample_rate = 24000, bits_per_sample = 16\<rparr>,
                      frame_count = length S div 2, frames = S\<rparr>"
proof -
  have "length S div 2 * 2 = length S"
    using assms(1) by simp
  then show ?thesis
    using convert_ok [OF assms(2)] wav_decode_encoded [OF assms(2)] by simp
qed

theorem C1_roundtrip_witness:
  "\<exists>w. convert_l16_to_wav [1, 2, 3, 4] = Inr w
       \<and> wav_decode w
           = Inr \<lparr>format = \<lparr>channels = 1, sample_rate = 24000, bits_per_sample = 16\<rparr>,
                  frame_count = 2, frames = [1, 2, 3, 4]\<rparr>"
proof -
  have e: "even (length [1, 2, 3, 4 :: byte])" by simp
  have l: "length [1, 2, 3, 4 :: byte] \<le> 4294967259" by simp
  have d: "length [1, 2, 3, 4 :: byte] div 2 = 2" by simp
  show ?thesis using C1_roundtrip [OF e l] unfolding d .
qed

text \<open>
  C2, as the specification states it: for every input, the container produced declares
  a data chunk of \<open>len(S)\<close> bytes and holds the input verbatim. For an input of
  4294967296 bytes no container is produced: the size does not fit its field and the
  call ends with \<^verbatim>\<open>struct.error\<close>.
\<close>

theorem C2_counterexample:
  "convert_l16_to_wav (replicate 4294967296 0) = Inl too_large"
  using convert_too_long [of "replicate 4294967296 0"] by simp

text \<open>
  C2, amended: for every input \<open>S\<close> of at most 4294967259 bytes the call returns a
  container whose data chunk (named at offset 36) declares the size \<open>len(S)\<close> at
  offset 40 and whose bytes from offset 44 on are the input, unchanged.
\<close>

theorem C2_data_chunk:
  assumes "length S \<le> 4294967259"
  shows "\<exists>w. convert_l16_to_wav S = Inr w
           \<and> take 4 (drop 36 w) = ascii ''data''
           \<and> unle (take 4 (drop 40 w)) = length S
           \<and> drop 44 w = S"
proof -
  have "length S < 4294967296" using assms by simp
  then show ?thesis
    using convert_ok [OF assms] header_fields(4) [of "length S" S]
      header_data_size [of "length S" S]
    by (simp add: len_wav_header)
qed

theorem C2_data_chunk_witness:
  "\<exists>w. convert_l16_to_wav [7, 8, 9] = Inr w
       \<and> take 4 (drop 36 w) = ascii ''data''
       \<and> unle (take 4 (drop 40 w)) = 3
       \<and> drop 44 w = [7, 8, 9]"
  using C2_data_chunk [of "[7, 8, 9]"] by (simp add: numeral_3_eq_3)

text \<open>
  C3: for 48000 zero bytes the encoder returns 48044 bytes, a header of 44 bytes and
  then the 48000 data bytes; the channel field (offset 22) is 1, the sample rate field
  (offset 24) is 24000 and the bit depth field (offset 34) is 16.
\<close>

theorem C3_scenario:
  "\<exists>w. convert_l16_to_wav (replicate 48000 0) = Inr w
       \<and> length w = 48044
       \<and> take 44 w = wav_header 48000
       \<and> drop 44 w = replicate 48000 0
       \<and> unle (take 4 (drop 24 w)) = 24000
       \<and> unle (take 2 (drop 22 w)) = 1
       \<and> unle (take 2 (drop 34 w)) = 16"
  using convert_ok [of "replicate 48000 0"] header_fields [of 48000 "replicate 48000 0"]
  by (simp add: len_wav_header)

text \<open>
  C8, as the specification states it: every input is accepted without an error, a
  trailing partial frame included. The encoder checks nothing itself, but the library
  does not accept every input: an input of 4294967261 bytes (an odd length) ends with
  \<^verbatim>\<open>struct.error\<close>.
\<close>

theorem C8_counterexample:
  "odd (length (replicate 4294967261 (0::byte)))
   \<and> convert_l16_to_wav (replicate 4294967261 0) = Inl too_large"
  using convert_too_long [of "replicate 4294967261 0"] by simp

text \<open>
  C8, amended: every input of at most 4294967259 bytes, of even or odd length, is
  accepted without an error and without validation of its length; the container holds
  all of the input after the 44 byte header, the byte of a trailing partial frame
  included, and declares its full length. Every longer input ends with
  \<^verbatim>\<open>struct.error\<close>.
\<close>

theorem C8_partial_frame:
  "(length S \<le> 4294967259 \<longrightarrow>
      (\<exists>w. convert_l16_to_wav S = Inr w \<and> length w = 44 + length S \<and> drop 44 w = S
           \<and> unle (take 4 (drop 40 w)) = length S))
   \<and> (4294967259 < length S \<longrightarrow> convert_l16_to_wav S = Inl too_large)"
proof (intro conjI impI)
  assume a: "length S \<le> 4294967259"
  then have "length S < 4294967296" by simp
  then show "\<exists>w. convert_l16_to_wav S = Inr w \<and> length w = 44 + length S \<and> drop 44 w = S
           \<and> unle (take 4 (drop 40 w)) = length S"
    using convert_ok [OF a] header_data_size [of "length S" S]
    by (simp add: len_wav_header)
next
  assume "4294967259 < length S"
  then show "convert_l16_to_wav S = Inl too_large"
    by (rule convert_too_long)
qed

theorem C8_partial_frame_witness:
  "odd (length [1, 2, 3 :: byte])
   \<and> (\<exists>w. convert_l16_to_wav [1, 2, 3] = Inr w \<and> length w = 47 \<and> drop 44 w = [1, 2, 3]
           \<and> unle (take 4 (drop 40 w)) = 3)
   \<and> convert_l16_to_wav (replicate 4294967262 0) = Inl too_large"
proof -
  have "\<exists>w. convert_l16_to_wav [1, 2, 3] = Inr w \<and> length w = 47 \<and> drop 44 w = [1, 2, 3]
           \<and> unle (take 4 (drop 40 w)) = 3"
    using C8_partial_frame [of "[1, 2, 3]"] by (simp add: numeral_3_eq_3)
  moreover have "convert_l16_to_wav (replicate 4294967262 0) = Inl too_large"
    using C8_partial_frame [of "replicate 4294967262 0"] by simp
  ultimately show ?thesis by simp
qed

section \<open>The request component, step by step\<close>

lemma generate_speech_sent:
  "snd (generate_speech k t v net) = net\<lparr>sent := sent net @ [mk_request k t v]\<rparr>"
  by (simp add: generate_speech_def requests_post_def split: sum.splits)

lemma generate_speech_result:
  "fst (generate_speech k t v net)
     = (case try_block (respond net (length (sent net)) (mk_request k t v)) of
          Inr r \<Rightarrow> r | Inl e \<Rightarrow> handlers e)"
  by (simp add: generate_speech_def requests_post_def split: sum.splits)

lemma try_block_answers:
  assumes "answers net req j"
  shows "try_block (respond net (length (sent net)) req) = extract_audio j"
  using assms by (auto simp add: answers_def try_block_def bind_def split: sum.splits)

lemma answers_result:
  assumes "answers net (mk_request k t v) j"
  shows "fst (generate_speech k t v net)
     = (case extract_audio j of Inr r \<Rightarrow> r | Inl e \<Rightarrow> handlers e)"
  by (simp add: generate_speech_result try_block_answers [OF assms])

lemma answering_answers:
  "\<not> (400 \<le> status \<and> status < 600) \<Longrightarrow> answers (answering status j) req j"
  by (auto simp add: answers_def answering_def raise_for_status_def)

lemma good_bind: "(\<And>x. good (f x)) \<Longrightarrow> good (bind m f)"
  by (cases m) (simp_all add: bind_def good_def)

lemma good_if: "good a \<Longrightarrow> good b \<Longrightarrow> good (if c then a else b)"
  by simp

lemma good_ret: "good (Inr (Some a, None))" "good (Inr (None, Some m))"
  by (simp_all add: good_def one_of_def)

lemma good_decode: "good (decode_inline_data d)"
  unfolding decode_inline_data_def
  by (intro good_bind good_if good_ret)

lemma good_extract: "good (extract_audio j)"
  unfolding extract_audio_def
  by (intro good_bind good_if good_ret good_decode)

lemma good_try: "good (try_block out)"
  unfolding try_block_def
  by (intro good_bind good_extract)

lemma one_of_handlers: "one_of (handlers e)"
  by (simp add: handlers_def one_of_def)

lemma has_key: "map_of kvs k = Some v \<Longrightarrow> k \<in> set (map fst kvs)"
  by (auto dest: map_of_SomeD intro: rev_image_eqI)

lemma no_key: "map_of kvs k = None \<Longrightarrow> k \<notin> set (map fst kvs)"
  by (simp add: map_of_eq_None_iff)

lemma extract_no_candidates:
  assumes "map_of kvs ''candidates'' = None"
  shows "extract_audio (JObject kvs) = Inr (None, Some ''No audio data in response'')"
  using no_key [OF assms] by (simp add: extract_audio_def bind_def)

lemma extract_empty_candidates:
  assumes "map_of kvs ''candidates'' = Some (JArray [])"
  shows "extract_audio (JObject kvs) = Inr (None, Some ''No audio data in response'')"
  using has_key [OF assms] assms by (simp add: extract_audio_def bind_def)

lemma obj_field_SomeD: "obj_field k j = Some v \<Longrightarrow> \<exists>kvs. j = JObject kvs \<and> map_of kvs k = Some v"
  by (cases j) simp_all

lemma first_elem_SomeD: "first_elem j = Some x \<Longrightarrow> \<exists>xs. j = JArray (x # xs)"
  by (cases j rule: first_elem.cases) simp_all

lemma first_candidate_SomeD:
  assumes "first_candidate j = Some c"
  shows "\<exists>kvs cs. j = JObject kvs \<and> map_of kvs ''candidates'' = Some (JArray (c # cs))"
proof -
  obtain a where a: "obj_field ''candidates'' j = Some a" "first_elem a = Some c"
    using assms by (auto simp add: first_candidate_def Option.bind_eq_Some_conv)
  then show ?thesis
    by (auto dest!: obj_field_SomeD first_elem_SomeD)
qed

lemma extract_first_candidate:
  assumes "first_candidate j = Some c"
  shows "extract_audio j =
     bind (py_getitem ''content'' c) (\<lambda>content.
     bind (py_getitem ''parts'' content) (\<lambda>parts.
     bind (py_getitem0 parts) (\<lambda>p0.
     bind (py_get ''inlineData'' p0) (\<lambda>inline_data.
     if truthy inline_data then decode_inline_data inline_data
     else Inr (None, Some ''No audio data in response'')))))"
proof -
  obtain kvs cs where j: "j = JObject kvs" "map_of kvs ''candidates'' = Some (JArray (c # cs))"
    using first_candidate_SomeD [OF assms] by blast
  show ?thesis
    using has_key [OF j(2)] j by (simp add: extract_audio_def bind_def)
qed

lemma first_part_SomeD:
  assumes "first_part j = Some p"
  shows "\<exists>c ckvs ctkvs ps. first_candidate j = Some c \<and> c = JObject ckvs
            \<and> map_of ckvs ''content'' = Some (JObject ctkvs)
            \<and> map_of ctkvs ''parts'' = Some (JArray (p # ps))"
proof -
  obtain c ct pa where a: "first_candidate j = Some c" "obj_field ''content'' c = Some ct"
      "obj_field ''parts'' ct = Some pa" "first_elem pa = Some p"
    using assms by (auto simp add: first_part_def Option.bind_eq_Some_conv)
  then show ?thesis
    by (auto dest!: obj_field_SomeD first_elem_SomeD)
qed

lemma extract_first_part:
  assumes "first_part j = Some p"
  shows "extract_audio j =
     bind (py_get ''inlineData'' p) (\<lambda>inline_data.
     if truthy inline_data then decode_inline_data inline_data
     else Inr (None, Some ''No audio data in response''))"
proof -
  obtain c ckvs ctkvs ps where a: "first_candidate j = Some c" "c = JObject ckvs"
      "map_of ckvs ''content'' = Some (JObject ctkvs)"
      "map_of ctkvs ''parts'' = Some (JArray (p # ps))"
    using first_part_SomeD [OF assms] by blast
  show ?thesis
    unfolding extract_first_candidate [OF a(1)] using a(2-4) by (simp add: bind_def)
qed

lemma extract_no_inline_data:
  assumes "first_part j = Some (JObject pk)" and "map_of pk ''inlineData'' = None"
  shows "extract_audio j = Inr (None, Some ''No audio data in response'')"
  unfolding extract_first_part [OF assms(1)] using assms(2) by (simp add: bind_def)

lemma extract_no_content:
  assumes "first_candidate j = Some (JObject c)" and "map_of c ''content'' = None"
  shows "extract_audio j = Inl (KeyError (quoted ''content''))"
  unfolding extract_first_candidate [OF assms(1)] using assms(2) by (simp add: bind_def)

lemma decode_passthrough:
  assumes "map_of d ''data'' = Some dv" and "b64decode dv = Inr audio"
    and "map_of d ''mimeType'' = Some (JString m)"
    and "\<not> is_substring ''audio/L16'' m" and "\<not> is_substring ''audio/pcm'' m"
  shows "decode_inline_data (JObject d) = Inr (Some audio, None)"
  using assms by (simp add: decode_inline_data_def bind_def)

lemma extract_passthrough:
  assumes "first_part j = Some (JObject pk)" and "map_of pk ''inlineData'' = Some (JObject d)"
    and "map_of d ''data'' = Some dv" and "b64decode dv = Inr audio"
    and "map_of d ''mimeType'' = Some (JString m)"
    and "\<not> is_substring ''audio/L16'' m" and "\<not> is_substring ''audio/pcm'' m"
  shows "extract_audio j = Inr (Some audio, None)"
proof -
  have "d \<noteq> []" using assms(3) by auto
  then show ?thesis
    unfolding extract_first_part [OF assms(1)]
    using assms(2) decode_passthrough [OF assms(3-7)] by (simp add: bind_def)
qed

lemma first_part_audio_answer:
  "first_part (audio_answer m b)
     = Some (JObject [(''inlineData'', JObject [(''mimeType'', JString m), (''data'', JString b)])])"
  by (simp add: first_part_def first_candidate_def audio_answer_def)

lemma handlers_other:
  "handlers (KeyError m) = (None, Some (''Error: '' @ m))"
  "handlers (IndexError m) = (None, Some (''Error: '' @ m))"
  "handlers (RequestException m) = (None, Some (''API Error: '' @ m))"
  by (simp_all add: handlers_def)

lemma b64_QUJD: "b64decode (JString ''QUJD'') = Inr [65, 66, 67]"
  by (simp add: b64_value_def)

lemma mpeg_not_raw:
  "\<not> is_substring ''audio/L16'' ''audio/mpeg''" "\<not> is_substring ''audio/pcm'' ''audio/mpeg''"
  by simp_all

lemma extract_audio_answer:
  assumes "b64decode (JString b) = Inr audio"
    and "\<not> is_substring ''audio/L16'' m" and "\<not> is_substring ''audio/pcm'' m"
  shows "extract_audio (audio_answer m b) = Inr (Some audio, None)"
proof -
  let ?d = "[(''mimeType'', JString m), (''data'', JString b)]"
  have i: "map_of [(''inlineData'', JObject ?d)] ''inlineData'' = Some (JObject ?d)"
    by simp
  have dd: "map_of ?d ''data'' = Some (JString b)"
    by simp
  have mm: "map_of ?d ''mimeType'' = Some (JString m)"
    by simp
  show ?thesis
    by (rule extract_passthrough [OF first_part_audio_answer i dd assms(1) mm assms(2,3)])
qed

text \<open>
  The substring test is the one of Python's \<^verbatim>\<open>in\<close> on strings: some text before,
  the needle, some text after.
\<close>

lemma starts_with_iff: "starts_with k s \<longleftrightarrow> (\<exists>q. s = k @ q)"
  by (induction k s rule: starts_with.induct) auto

lemma is_substring_iff: "is_substring k s \<longleftrightarrow> (\<exists>p q. s = p @ k @ q)"
proof (induction s)
  case Nil
  then show ?case by auto
next
  case (Cons c cs)
  show ?case
  proof
    assume "is_substring k (c # cs)"
    then consider "starts_with k (c # cs)" | "is_substring k cs" by auto
    then show "\<exists>p q. c # cs = p @ k @ q"
    proof cases
      case 1
      then obtain q where "c # cs = k @ q" using starts_with_iff by blast
      then have "c # cs = [] @ k @ q" by simp
      then show ?thesis by blast
    next
      case 2
      then obtain p q where "cs = p @ k @ q" using Cons.IH by blast
      then have "c # cs = (c # p) @ k @ q" by simp
      then show ?thesis by blast
    qed
  next
    assume "\<exists>p q. c # cs = p @ k @ q"
    then obtain p q where e: "c # cs = p @ k @ q" by blast
    show "is_substring k (c # cs)"
    proof (cases p)
      case Nil
      then have "starts_with k (c # cs)" using e starts_with_iff by auto
      then show ?thesis by simp
    next
      case (Cons a p')
      then have "cs = p' @ k @ q" using e by simp
      then have "is_substring k cs" using Cons.IH by blast
      then show ?thesis by simp
    qed
  qed
qed

section \<open>Claims about the request component\<close>

text \<open>
  The guarded end of the path: an answer whose \<^verbatim>\<open>parts[0]\<close> is an object without
  \<^verbatim>\<open>inlineData\<close> gets the specific error, through \<^verbatim>\<open>.get("inlineData")\<close> and
  the \<^verbatim>\<open>return\<close> of line 77, as an answer without \<^verbatim>\<open>candidates\<close> does.
\<close>

lemma inline_data_absent_guarded:
  assumes "answers net (mk_request k t v) j"
    and "first_part j = Some (JObject pk)" and "map_of pk ''inlineData'' = None"
  shows "fst (generate_speech k t v net) = (None, Some ''No audio data in response'')"
  using extract_no_inline_data [OF assms(2,3)]
  by (simp add: answers_result [OF assms(1)])

text \<open>
  C4: whichever component of the path \<^verbatim>\<open>candidates[0].content.parts[0].inlineData\<close>
  is missing from a successfully parsed answer, \<^verbatim>\<open>generate_speech\<close> is to return
  the error \<^verbatim>\<open>No audio data in response\<close> and no audio bytes. The program does so at
  both ends of the path (the test on \<^verbatim>\<open>candidates\<close> of line 65, and
  \<^verbatim>\<open>.get("inlineData")\<close> of line 66), and misses the steps between, which are plain
  subscripts on the same line. Evaluated on an answer whose first candidate has no
  \<^verbatim>\<open>content\<close> (a candidate that only reports why it was stopped): the path is
  absent, \<^verbatim>\<open>["content"]\<close> raises \<^verbatim>\<open>KeyError\<close>, and the handler of line 81 returns
  the text \<^verbatim>\<open>Error: 'content'\<close>, which is not the specific error.
\<close>

theorem C4_failing_input:
  "first_part (JObject [(''candidates'', JArray [JObject [(''finishReason'', JString ''SAFETY'')]])]) = None
   \<and> fst (generate_speech ''key'' ''Hello world'' (Some ''Kore'')
          (answering 200 (JObject [(''candidates'',
              JArray [JObject [(''finishReason'', JString ''SAFETY'')]])])))
       = (None, Some (''Error: '' @ quoted ''content''))
   \<and> ''Error: '' @ quoted ''content'' \<noteq> ''No audio data in response''"
proof -
  let ?j = "JObject [(''candidates'', JArray [JObject [(''finishReason'', JString ''SAFETY'')]])]"
  have a: "answers (answering 200 ?j) (mk_request ''key'' ''Hello world'' (Some ''Kore'')) ?j"
    by (rule answering_answers) simp
  have "extract_audio ?j = Inl (KeyError (quoted ''content''))"
    by (rule extract_no_content [where c = "[(''finishReason'', JString ''SAFETY'')]"])
      (simp_all add: first_candidate_def)
  then show ?thesis
    using answers_result [OF a]
    by (simp add: handlers_other first_part_def first_candidate_def)
qed

text \<open>
  C5: for every parsed answer that is an object without the key \<^verbatim>\<open>candidates\<close>, or
  whose \<^verbatim>\<open>candidates\<close> is an empty list, \<^verbatim>\<open>generate_speech\<close> returns the error
  \<^verbatim>\<open>No audio data in response\<close> and no audio bytes.
\<close>

theorem C5_no_candidates:
  assumes "answers net (mk_request k t v) (JObject kvs)"
    and "map_of kvs ''candidates'' = None \<or> map_of kvs ''candidates'' = Some (JArray [])"
  shows "fst (generate_speech k t v net) = (None, Some ''No audio data in response'')"
  using assms(2) extract_no_candidates [of kvs] extract_empty_candidates [of kvs]
  by (auto simp add: answers_result [OF assms(1)])

theorem C5_no_candidates_witness:
  "fst (generate_speech ''key'' ''Hello world'' (Some ''Kore'')
      (answering 200 (JObject [(''promptFeedback'',
          JObject [(''blockReason'', JString ''SAFETY'')])])))
     = (None, Some ''No audio data in response'')
   \<and> fst (generate_speech ''key'' ''Hello world'' (Some ''Kore'')
      (answering 200 (JObject [(''candidates'', JArray [])])))
     = (None, Some ''No audio data in response'')"
proof -
  have a: "answers (answering 200 j) (mk_request ''key'' ''Hello world'' (Some ''Kore'')) j" for j
    by (rule answering_answers) simp
  have 1: "map_of [(''promptFeedback'', JObject [(''blockReason'', JString ''SAFETY'')])]
             ''candidates'' = None
         \<or> map_of [(''promptFeedback'', JObject [(''blockReason'', JString ''SAFETY'')])]
             ''candidates'' = Some (JArray [])"
    by simp
  have 2: "map_of [(''candidates'', JArray [])] ''candidates'' = None
         \<or> map_of [(''candidates'', JArray [])] ''candidates'' = Some (JArray [])"
    by simp
  show ?thesis
    using C5_no_candidates [OF a 1] C5_no_candidates [OF a 2] by blast
qed

text \<open>
  C6: for every answer that carries inline data whose \<^verbatim>\<open>mimeType\<close> is a string
  containing neither \<^verbatim>\<open>audio/L16\<close> nor \<^verbatim>\<open>audio/pcm\<close>, \<^verbatim>\<open>generate_speech\<close>
  returns the bytes that base64 decoding of \<^verbatim>\<open>data\<close> yields, unchanged: the
  container encoder is not applied.
\<close>

theorem C6_passthrough:
  assumes "answers net (mk_request k t v) j"
    and "first_part j = Some (JObject pk)" and "map_of pk ''inlineData'' = Some (JObject d)"
    and "map_of d ''mimeType'' = Some (JString m)"
    and "\<not> is_substring ''audio/L16'' m" and "\<not> is_substring ''audio/pcm'' m"
    and "map_of d ''data'' = Some dv" and "b64decode dv = Inr audio"
  shows "fst (generate_speech k t v net) = (Some audio, None)"
  using extract_passthrough [OF assms(2,3,7,8,4,5,6)]
  by (simp add: answers_result [OF assms(1)])

theorem C6_passthrough_witness:
  "fst (generate_speech ''key'' ''Hello world'' (Some ''Kore'')
      (answering 200 (audio_answer ''audio/mpeg'' ''QUJD''))) = (Some [65, 66, 67], None)"
proof -
  let ?d = "[(''mimeType'', JString ''audio/mpeg''), (''data'', JString ''QUJD'')]"
  have a: "answers (answering 200 (audio_answer ''audio/mpeg'' ''QUJD''))
      (mk_request ''key'' ''Hello world'' (Some ''Kore'')) (audio_answer ''audio/mpeg'' ''QUJD'')"
    by (rule answering_answers) simp
  have i: "map_of [(''inlineData'', JObject ?d)] ''inlineData'' = Some (JObject ?d)"
    by simp
  have dd: "map_of ?d ''data'' = Some (JString ''QUJD'')"
    by simp
  have mm: "map_of ?d ''mimeType'' = Some (JString ''audio/mpeg'')"
    by simp
  show ?thesis
    by (rule C6_passthrough [OF a first_part_audio_answer i mm mpeg_not_raw dd b64_QUJD])
qed

text \<open>
  C7: for every API key, text and voice, and every behaviour of the network (an
  exception of the call, any status, any outcome of parsing the body, any parsed value),
  \<^verbatim>\<open>generate_speech\<close> returns exactly one of the two: audio bytes with no error, or
  an error string with no audio bytes.
\<close>

theorem C7_exactly_one:
  "(\<exists>audio. fst (generate_speech k t v net) = (Some audio, None))
   \<or> (\<exists>msg. fst (generate_speech k t v net) = (None, Some msg))"
proof -
  have "one_of (fst (generate_speech k t v net))"
    using good_try [of "respond net (length (sent net)) (mk_request k t v)"] one_of_handlers
    by (auto simp add: generate_speech_result good_def split: sum.splits)
  then show ?thesis
    by (cases "fst (generate_speech k t v net)") (auto simp add: one_of_def)
qed

text \<open>
  C9, as the specification states it: every response with a status outside 200 to 299
  ends in an error string. \<^verbatim>\<open>raise_for_status\<close> raises only for the statuses 400
  to 599; a response with status 300 and an audio answer in its body is processed like
  a success, and audio comes back with no error.
\<close>

theorem C9_counterexample:
  "(300::nat) \<notin> {200..<300}
   \<and> fst (generate_speech ''key'' ''Hello world'' None
        (answering 300 (audio_answer ''audio/mpeg'' ''QUJD''))) = (Some [65, 66, 67], None)"
proof -
  let ?j = "audio_answer ''audio/mpeg'' ''QUJD''"
  have a: "answers (answering 300 ?j) (mk_request ''key'' ''Hello world'' None) ?j"
    by (rule answering_answers) simp
  have "extract_audio ?j = Inr (Some [65, 66, 67], None)"
    by (rule extract_audio_answer [OF b64_QUJD mpeg_not_raw])
  then show ?thesis
    using answers_result [OF a] by simp
qed

text \<open>
  C9, amended: when \<^verbatim>\<open>requests.post\<close> raises (a connection error is a
  \<^verbatim>\<open>RequestException\<close>), and when the response has a status from 400 to 599,
  \<^verbatim>\<open>generate_speech\<close> returns no audio and an error string that ends with the
  description of the failure (after \<^verbatim>\<open>API Error: \<close> for a \<^verbatim>\<open>RequestException\<close>,
  the HTTP error included). A response with any other status, the ones outside 200 to
  299 such as 300 included, is processed as a success: the result is what parsing and
  navigating its body gives, and the status plays no part in it. In every case the call
  returns normally, and exactly one request has been sent: nothing is retried.
\<close>

theorem C9_transport_failure:
  "(respond net (length (sent net)) (mk_request k t v) = Inl e \<longrightarrow>
      generate_speech k t v net
        = ((None, Some ((if is_request_exception e then ''API Error: '' else ''Error: '')
                          @ str_exn e)),
           net\<lparr>sent := sent net @ [mk_request k t v]\<rparr>))
   \<and> (respond net (length (sent net)) (mk_request k t v) = Inr r
        \<and> 400 \<le> status_code r \<and> status_code r < 600 \<longrightarrow>
      generate_speech k t v net
        = ((None, Some (''API Error: '' @ str_nat (status_code r)
                          @ (if status_code r < 500 then '' Client Error: ''
                             else '' Server Error: '')
                          @ reason r @ '' for url: '' @ resp_url r)),
           net\<lparr>sent := sent net @ [mk_request k t v]\<rparr>))
   \<and> (respond net (length (sent net)) (mk_request k t v) = Inr r
        \<and> \<not> (400 \<le> status_code r \<and> status_code r < 600) \<longrightarrow>
      generate_speech k t v net
        = ((case bind (json_body r) extract_audio of
              Inl e \<Rightarrow> handlers e
            | Inr res \<Rightarrow> res),
           net\<lparr>sent := sent net @ [mk_request k t v]\<rparr>))"
proof (intro conjI impI)
  assume "respond net (length (sent net)) (mk_request k t v) = Inl e"
  then show "generate_speech k t v net
        = ((None, Some ((if is_request_exception e then ''API Error: '' else ''Error: '')
                          @ str_exn e)),
           net\<lparr>sent := sent net @ [mk_request k t v]\<rparr>)"
    by (simp add: generate_speech_def requests_post_def try_block_def bind_def handlers_def)
next
  assume "respond net (length (sent net)) (mk_request k t v) = Inr r
        \<and> 400 \<le> status_code r \<and> status_code r < 600"
  then show "generate_speech k t v net
        = ((None, Some (''API Error: '' @ str_nat (status_code r)
                          @ (if status_code r < 500 then '' Client Error: ''
                             else '' Server Error: '')
                          @ reason r @ '' for url: '' @ resp_url r)),
           net\<lparr>sent := sent net @ [mk_request k t v]\<rparr>)"
    by (auto simp add: generate_speech_def requests_post_def try_block_def bind_def
        handlers_def raise_for_status_def)
next
  assume a: "respond net (length (sent net)) (mk_request k t v) = Inr r
        \<and> \<not> (400 \<le> status_code r \<and> status_code r < 600)"
  then have "raise_for_status r = Inr ()"
    by (auto simp add: raise_for_status_def)
  then have "try_block (respond net (length (sent net)) (mk_request k t v))
      = bind (json_body r) extract_audio"
    using a by (simp add: try_block_def bind_def)
  then show "generate_speech k t v net
        = ((case bind (json_body r) extract_audio of
              Inl e \<Rightarrow> handlers e
            | Inr res \<Rightarrow> res),
           net\<lparr>sent := sent net @ [mk_request k t v]\<rparr>)"
    by (simp add: generate_speech_def requests_post_def split: sum.splits)
qed

theorem C9_transport_failure_witness:
  "fst (generate_speech ''key'' ''Hello world'' None
      \<lparr>respond = (\<lambda>n req. Inl (RequestException ''Connection refused'')), sent = []\<rparr>)
     = (None, Some ''API Error: Connection refused'')
   \<and> sent (snd (generate_speech ''key'' ''Hello world'' None
      \<lparr>respond = (\<lambda>n req. Inl (RequestException ''Connection refused'')), sent = []\<rparr>))
     = [mk_request ''key'' ''Hello world'' None]
   \<and> fst (generate_speech ''key'' ''Hello world'' None
      \<lparr>respond = (\<lambda>n req. Inr \<lparr>status_code = 503, reason = ''Service Unavailable'',
                                  resp_url = ''https://tts.example/v1'',
                                  json_body = Inr (audio_answer ''audio/mpeg'' ''QUJD'')\<rparr>),
        sent = []\<rparr>)
     = (None, Some ''API Error: 503 Server Error: Service Unavailable for url: https://tts.example/v1'')
   \<and> fst (generate_speech ''key'' ''Hello world'' None
      \<lparr>respond = (\<lambda>n req. Inr \<lparr>status_code = 304, reason = ''Not Modified'',
                                  resp_url = ''https://tts.example/v1'',
                                  json_body = Inr (audio_answer ''audio/mpeg'' ''QUI='')\<rparr>),
        sent = []\<rparr>)
     = (Some [65, 66], None)"
proof -
  let ?down = "\<lparr>respond = (\<lambda>n req. Inl (RequestException ''Connection refused'')),
                 sent = []\<rparr>"
  let ?r = "\<lparr>status_code = 503, reason = ''Service Unavailable'',
              resp_url = ''https://tts.example/v1'',
              json_body = Inr (audio_answer ''audio/mpeg'' ''QUJD'')\<rparr>"
  let ?busy = "\<lparr>respond = (\<lambda>n req. Inr ?r), sent = []\<rparr>"
  let ?q = "\<lparr>status_code = 304, reason = ''Not Modified'',
              resp_url = ''https://tts.example/v1'',
              json_body = Inr (audio_answer ''audio/mpeg'' ''QUI='')\<rparr>"
  let ?same = "\<lparr>respond = (\<lambda>n req. Inr ?q), sent = []\<rparr>"
  have s: "str_nat 503 = ''503''"
    by (simp add: str_nat.simps)
  have b: "b64decode (JString ''QUI='') = Inr [65, 66]"
    by (simp add: b64_value_def)
  have x: "extract_audio (audio_answer ''audio/mpeg'' ''QUI='') = Inr (Some [65, 66], None)"
    by (rule extract_audio_answer [OF b mpeg_not_raw])
  have 1: "generate_speech ''key'' ''Hello world'' None ?down
      = ((None, Some ''API Error: Connection refused''),
         ?down\<lparr>sent := [mk_request ''key'' ''Hello world'' None]\<rparr>)"
    using C9_transport_failure [of ?down "''key''" "''Hello world''" None
        "RequestException ''Connection refused''"]
    by simp
  have 2: "generate_speech ''key'' ''Hello world'' None ?busy
      = ((None, Some ''API Error: 503 Server Error: Service Unavailable for url: https://tts.example/v1''),
         ?busy\<lparr>sent := [mk_request ''key'' ''Hello world'' None]\<rparr>)"
    using C9_transport_failure [of ?busy "''key''" "''Hello world''" None _ ?r]
    by (simp add: s)
  have 3: "generate_speech ''key'' ''Hello world'' None ?same
      = ((Some [65, 66], None),
         ?same\<lparr>sent := [mk_request ''key'' ''Hello world'' None]\<rparr>)"
    using C9_transport_failure [of ?same "''key''" "''Hello world''" None _ ?q]
    by (simp add: bind_def x)
  show ?thesis
    unfolding 1 2 3 by simp
qed

text \<open>
  C10: a call of \<^verbatim>\<open>generate_speech\<close> that gives no voice sends a request whose
  \<^verbatim>\<open>generationConfig.speechConfig.voiceConfig.prebuiltVoiceConfig.voiceName\<close> is
  \<^verbatim>\<open>Puck\<close>.
\<close>

theorem C10_default_voice:
  "voice_name_sent (mk_request k t None) = Some (JString ''Puck'')
   \<and> sent (snd (generate_speech k t None net)) = sent net @ [mk_request k t None]"
  by (simp add: generate_speech_sent voice_name_sent_def mk_request_def)

end
